theory Spec2Isabelle
  imports Main "HOL-Library.Sublist"
begin

section \<open>JavaScript values\<close>

text \<open>
  The SDK is one JavaScript class, \<^verbatim>\<open>RapidAPI\<close>, with two methods: \<^verbatim>\<open>call\<close> (invoke a
  block and dispatch the response to handlers registered with \<^verbatim>\<open>.on\<close>) and \<^verbatim>\<open>listen\<close>
  (token exchange, then a websocket session). The model gives every callback of the source
  as a function from its arguments to the effects it causes and the way it completes.

  JavaScript numbers are IEEE doubles; nothing in the source computes with them, so the type
  is left opaque and the three facts the language needs about a number (its text, its
  truthiness, its finiteness) are fields of \<open>builtins\<close> below.
\<close>

typedecl jsnumber

instantiation jsnumber :: equal
begin

definition equal_jsnumber :: "jsnumber \<Rightarrow> jsnumber \<Rightarrow> bool" where
  "equal_jsnumber x y \<longleftrightarrow> x = y"

instance
  by standard (simp add: equal_jsnumber_def)

end

text \<open>
  JSON data, as \<^verbatim>\<open>JSON.parse\<close> produces it. An object lists its own properties in the
  object's property order; every property is a data property.
\<close>

datatype json =
    JNull
  | JBool bool
  | JNum jsnumber
  | JStr string
  | JArr "json list"
  | JObj "(string \<times> json) list"

text \<open>
  Functions are known by identity only. \<open>UserFn n\<close> is a function supplied by the caller;
  the two others are the default arrow functions \<^verbatim>\<open>() => {}\<close> of \<^verbatim>\<open>listen\<close>.
  Caller-supplied functions are taken to be ordinary or arrow functions without properties
  of their own beyond the standard ones, and the built-in prototypes to be unmodified.
\<close>

datatype fname = UserFn nat | NoopOnMessage | NoopOnClose

datatype jsval =
    Undefined
  | Data json
  | Fun fname
  | ErrorObj string

abbreviation Str :: "string \<Rightarrow> jsval" where
  "Str s \<equiv> Data (JStr s)"

abbreviation TypeError :: jsval where
  "TypeError \<equiv> ErrorObj ''TypeError''"

fun of_opt :: "json option \<Rightarrow> jsval" where
  "of_opt None = Undefined"
| "of_opt (Some j) = Data j"

text \<open>
  The built-ins that are not code of this repository: the JSON text parser (\<open>Inl\<close> carries
  the name of the error it throws) and the number primitives.
\<close>

record builtins =
  JSON_parse :: "string \<Rightarrow> string + json"
  Number_toString :: "jsnumber \<Rightarrow> string"
  Number_toBoolean :: "jsnumber \<Rightarrow> bool"
  Number_isFinite :: "jsnumber \<Rightarrow> bool"

fun typeof :: "jsval \<Rightarrow> string" where
  "typeof Undefined = ''undefined''"
| "typeof (Data JNull) = ''object''"
| "typeof (Data (JBool b)) = ''boolean''"
| "typeof (Data (JNum n)) = ''number''"
| "typeof (Data (JStr s)) = ''string''"
| "typeof (Data (JArr xs)) = ''object''"
| "typeof (Data (JObj kvs)) = ''object''"
| "typeof (Fun f) = ''function''"
| "typeof (ErrorObj n) = ''object''"

fun to_boolean :: "builtins \<Rightarrow> jsval \<Rightarrow> bool" where
  "to_boolean B Undefined = False"
| "to_boolean B (Data JNull) = False"
| "to_boolean B (Data (JBool b)) = b"
| "to_boolean B (Data (JNum n)) = Number_toBoolean B n"
| "to_boolean B (Data (JStr s)) = (s \<noteq> [])"
| "to_boolean B (Data (JArr xs)) = True"
| "to_boolean B (Data (JObj kvs)) = True"
| "to_boolean B (Fun f) = True"
| "to_boolean B (ErrorObj n) = True"

fun join_comma :: "string list \<Rightarrow> string" where
  "join_comma [] = []"
| "join_comma [s] = s"
| "join_comma (s # t # ss) = s @ '','' @ join_comma (t # ss)"

text \<open>
  \<^verbatim>\<open>ToString\<close> on JSON data; \<open>None\<close> is a thrown TypeError. An array joins its elements
  with commas, \<^verbatim>\<open>null\<close> elements as the empty text. A plain object gives
  \<^verbatim>\<open>[object Object]\<close> through the inherited \<^verbatim>\<open>toString\<close>; an own \<^verbatim>\<open>toString\<close> property
  hides that method, is not callable (it is data), and the conversion fails.
\<close>

fun json_to_string :: "builtins \<Rightarrow> json \<Rightarrow> string option" where
  "json_to_string B JNull = Some ''null''"
| "json_to_string B (JBool b) = Some (if b then ''true'' else ''false'')"
| "json_to_string B (JNum n) = Some (Number_toString B n)"
| "json_to_string B (JStr s) = Some s"
| "json_to_string B (JArr xs) =
     map_option join_comma
       (those (map (\<lambda>x. case x of JNull \<Rightarrow> Some [] | _ \<Rightarrow> json_to_string B x) xs))"
| "json_to_string B (JObj kvs) =
     (case map_of kvs ''toString'' of None \<Rightarrow> Some ''[object Object]'' | Some v \<Rightarrow> None)"

text \<open>\<^verbatim>\<open>ToString\<close> / \<^verbatim>\<open>ToPropertyKey\<close> of a value read from a JSON object (absent: undefined).\<close>

fun to_string_opt :: "builtins \<Rightarrow> json option \<Rightarrow> string option" where
  "to_string_opt B None = Some ''undefined''"
| "to_string_opt B (Some j) = json_to_string B j"

text \<open>
  \<^verbatim>\<open>JSON.parse(v)\<close>: the argument is converted to text and the text is parsed. The texts
  of \<^verbatim>\<open>undefined\<close>, of a function and of an error object are never JSON.
\<close>

fun JSON_parse_value :: "builtins \<Rightarrow> jsval \<Rightarrow> string + json" where
  "JSON_parse_value B Undefined = Inl ''SyntaxError''"
| "JSON_parse_value B (Fun f) = Inl ''SyntaxError''"
| "JSON_parse_value B (ErrorObj n) = Inl ''SyntaxError''"
| "JSON_parse_value B (Data j) =
     (case json_to_string B j of None \<Rightarrow> Inl ''TypeError'' | Some s \<Rightarrow> JSON_parse B s)"

subsection \<open>JSON.stringify\<close>

definition hex_digit :: "nat \<Rightarrow> char" where
  "hex_digit n = ''0123456789abcdef'' ! (n mod 16)"

text \<open>\<^verbatim>\<open>QuoteJSONString\<close>, one character at a time.\<close>

definition quote_char :: "char \<Rightarrow> string" where
  "quote_char c =
     (if c = CHR 0x08 then [CHR 0x5C, CHR ''b'']
      else if c = CHR 0x09 then [CHR 0x5C, CHR ''t'']
      else if c = CHR 0x0A then [CHR 0x5C, CHR ''n'']
      else if c = CHR 0x0C then [CHR 0x5C, CHR ''f'']
      else if c = CHR 0x0D then [CHR 0x5C, CHR ''r'']
      else if c = CHR 0x22 then [CHR 0x5C, CHR 0x22]
      else if c = CHR 0x5C then [CHR 0x5C, CHR 0x5C]
      else if of_char c < (32::nat)
        then [CHR 0x5C, CHR ''u'', CHR ''0'', CHR ''0'',
              hex_digit (of_char c div 16), hex_digit (of_char c)]
      else [c])"

definition quote_json :: "string \<Rightarrow> string" where
  "quote_json s = [CHR 0x22] @ concat (map quote_char s) @ [CHR 0x22]"

fun json_stringify :: "builtins \<Rightarrow> json \<Rightarrow> string" where
  "json_stringify B JNull = ''null''"
| "json_stringify B (JBool b) = (if b then ''true'' else ''false'')"
| "json_stringify B (JNum n) = (if Number_isFinite B n then Number_toString B n else ''null'')"
| "json_stringify B (JStr s) = quote_json s"
| "json_stringify B (JArr xs) = ''['' @ join_comma (map (json_stringify B) xs) @ '']''"
| "json_stringify B (JObj kvs) =
     ''{'' @ join_comma (map (\<lambda>(k, v). quote_json k @ '':'' @ json_stringify B v) kvs) @ ''}''"

text \<open>
  \<^verbatim>\<open>JSON.stringify(v)\<close> gives undefined (\<open>None\<close>) for \<^verbatim>\<open>undefined\<close> and for a function; an
  error object has no enumerable property.
\<close>

fun JSON_stringify :: "builtins \<Rightarrow> jsval \<Rightarrow> string option" where
  "JSON_stringify B Undefined = None"
| "JSON_stringify B (Fun f) = None"
| "JSON_stringify B (ErrorObj n) = Some ''{}''"
| "JSON_stringify B (Data j) = Some (json_stringify B j)"

text \<open>A template literal substitutes \<^verbatim>\<open>ToString\<close> of the value.\<close>

fun subst_opt :: "string option \<Rightarrow> string" where
  "subst_opt None = ''undefined''"
| "subst_opt (Some s) = s"

subsection \<open>Property access\<close>

text \<open>
  \<^verbatim>\<open>v.k\<close> for the property names the source reads (\<^verbatim>\<open>outcome\<close>, \<^verbatim>\<open>payload\<close>, \<^verbatim>\<open>body\<close>,
  \<^verbatim>\<open>token\<close>, \<^verbatim>\<open>event\<close>): none of them is defined on a built-in prototype, so the value is
  the own property or undefined. Reading a property of \<^verbatim>\<open>undefined\<close> or \<^verbatim>\<open>null\<close> throws.
\<close>

fun get_field :: "jsval \<Rightarrow> string \<Rightarrow> jsval + json option" where
  "get_field Undefined k = Inl TypeError"
| "get_field (Data JNull) k = Inl TypeError"
| "get_field (Data (JObj kvs)) k = Inr (map_of kvs k)"
| "get_field v k = Inr None"

text \<open>
  \<^verbatim>\<open>body.hasOwnProperty('outcome')\<close>. The method is looked up on the body itself first: an
  own property of that name (data, hence not callable) makes the call throw. Arrays,
  strings, numbers, booleans, functions and error objects have no own \<^verbatim>\<open>outcome\<close>.
\<close>

fun hasOwnProperty_outcome :: "jsval \<Rightarrow> jsval + bool" where
  "hasOwnProperty_outcome Undefined = Inl TypeError"
| "hasOwnProperty_outcome (Data JNull) = Inl TypeError"
| "hasOwnProperty_outcome (Data (JObj kvs)) =
     (case map_of kvs ''hasOwnProperty'' of
        Some v \<Rightarrow> Inl TypeError
      | None \<Rightarrow> Inr (map_of kvs ''outcome'' \<noteq> None))"
| "hasOwnProperty_outcome v = Inr False"

text \<open>\<^verbatim>\<open>event.startsWith("phx_")\<close>: only a string has the method.\<close>

fun startsWith :: "json option \<Rightarrow> string \<Rightarrow> jsval + bool" where
  "startsWith (Some (JStr s)) p = Inr (prefix p s)"
| "startsWith v p = Inl TypeError"

section \<open>Effects and completions\<close>

record http_request =
  http_method :: string
  uri :: string
  headers :: "(string \<times> string) list"
  auth_user :: string
  auth_pass :: string
  sendImmediately :: bool
  formData :: "jsval option"

datatype effect =
    Request http_request
  | Invoke fname "jsval list"
  | WsConnect string
  | WsSend string

text \<open>
  A callback either returns, or throws a value, or (one corner of the dispatch, see
  \<open>inherited_call\<close>) goes on to call a method of a built-in prototype, which is where this
  model stops.
\<close>

datatype abort = Throw jsval | CallsInherited string

type_synonym 'a comp = "effect list \<times> (abort + 'a)"

definition ret :: "'a \<Rightarrow> 'a comp" where
  "ret x = ([], Inr x)"

definition throw :: "jsval \<Rightarrow> 'a comp" where
  "throw e = ([], Inl (Throw e))"

definition lift :: "jsval + 'a \<Rightarrow> 'a comp" where
  "lift r = (case r of Inl e \<Rightarrow> throw e | Inr x \<Rightarrow> ret x)"

definition seq :: "'a comp \<Rightarrow> ('a \<Rightarrow> 'b comp) \<Rightarrow> 'b comp" where
  "seq m f =
     (case m of
        (tr, Inl a) \<Rightarrow> (tr, Inl a)
      | (tr, Inr x) \<Rightarrow> (case f x of (tr', r) \<Rightarrow> (tr @ tr', r)))"

text \<open>
  What a caller-supplied function does when called: it throws (\<open>Inl\<close>) or returns a value.
  Its effects on anything but the trace are not modelled.
\<close>

type_synonym handlers = "nat \<Rightarrow> jsval list \<Rightarrow> jsval + jsval"

definition invoke :: "handlers \<Rightarrow> fname \<Rightarrow> jsval list \<Rightarrow> jsval comp" where
  "invoke H f args =
     ([Invoke f args],
      case f of
        UserFn n \<Rightarrow> (case H n args of Inl e \<Rightarrow> Inl (Throw e) | Inr v \<Rightarrow> Inr v)
      | NoopOnMessage \<Rightarrow> Inr Undefined
      | NoopOnClose \<Rightarrow> Inr Undefined)"

text \<open>Calling a value: anything but a function throws.\<close>

fun call_value :: "handlers \<Rightarrow> jsval \<Rightarrow> jsval list \<Rightarrow> jsval comp" where
  "call_value H (Fun f) args = invoke H f args"
| "call_value H v args = throw TypeError"

fun invocations :: "effect list \<Rightarrow> (fname \<times> jsval list) list" where
  "invocations [] = []"
| "invocations (Invoke f args # es) = (f, args) # invocations es"
| "invocations (e # es) = invocations es"

section \<open>The client\<close>

record client =
  project :: string
  key :: string

definition getBaseURL :: string where
  "getBaseURL = ''https://rapidapi.io/connect''"

definition blockURLBuilder :: "string \<Rightarrow> string \<Rightarrow> string" where
  "blockURLBuilder pack block = getBaseURL @ ''/'' @ pack @ ''/'' @ block"

definition callbackBaseURL :: string where
  "callbackBaseURL = ''https://webhooks.rapidapi.io''"

definition websocketBaseURL :: string where
  "websocketBaseURL = ''ws://webhooks.rapidapi.io''"

section \<open>call: the callback table and the registrar\<close>

text \<open>
  \<^verbatim>\<open>let __callbacks = {}\<close> is a plain object used as a table. It has own properties (only
  \<^verbatim>\<open>__callbacks[e] = cb\<close> adds any, and \<^verbatim>\<open>cb\<close> is a function then) and a prototype:
  \<^verbatim>\<open>Object.prototype\<close> at first, and the function \<^verbatim>\<open>cb\<close> once \<^verbatim>\<open>__callbacks['__proto__'] = cb\<close>
  has run, since that assignment reaches the inherited \<^verbatim>\<open>__proto__\<close> setter.
\<close>

datatype proto = ObjectPrototype | FunctionObject fname

record cbtable =
  own :: "string \<rightharpoonup> fname"
  proto :: proto

record call_state =
  registrar :: nat
  callbacks :: cbtable

text \<open>
  The assignment \<^verbatim>\<open>__callbacks[k] = f\<close> in strict mode. An own property is overwritten.
  Otherwise the prototype chain decides: \<^verbatim>\<open>__proto__\<close> is an accessor whose setter replaces
  the prototype; under a function prototype \<^verbatim>\<open>name\<close> and \<^verbatim>\<open>length\<close> are read-only and
  \<^verbatim>\<open>caller\<close> and \<^verbatim>\<open>arguments\<close> have a throwing setter, so the assignment throws; any
  other name gets a new own property.
\<close>

fun readonly_inherited :: "proto \<Rightarrow> string \<Rightarrow> bool" where
  "readonly_inherited ObjectPrototype k = False"
| "readonly_inherited (FunctionObject f) k =
     (k \<in> set [''name'', ''length'', ''caller'', ''arguments''])"

definition callbacks_set :: "cbtable \<Rightarrow> string \<Rightarrow> fname \<Rightarrow> jsval + cbtable" where
  "callbacks_set t k f =
     (if own t k \<noteq> None then Inr (t\<lparr>own := (own t)(k \<mapsto> f)\<rparr>)
      else if k = ''__proto__'' then Inr (t\<lparr>proto := FunctionObject f\<rparr>)
      else if readonly_inherited (proto t) k then Inl TypeError
      else Inr (t\<lparr>own := (own t)(k \<mapsto> f)\<rparr>))"

definition invalid_argument :: jsval where
  "invalid_argument = Str
     ''Invalid event key and callback. Event key should be a string and callback should be a function.''"

text \<open>
  \<^verbatim>\<open>r.on(e, cb)\<close>: returns \<^verbatim>\<open>r\<close> itself (its reference) and the state after the call, or
  throws.
\<close>

definition on :: "call_state \<Rightarrow> jsval \<Rightarrow> jsval \<Rightarrow> jsval + (nat \<times> call_state)" where
  "on st e cb =
     (if typeof cb = ''function'' \<and> typeof e = ''string'' then
        (case (e, cb) of
           (Data (JStr k), Fun f) \<Rightarrow>
             (case callbacks_set (callbacks st) k f of
                Inl x \<Rightarrow> Inl x
              | Inr t \<Rightarrow> Inr (registrar st, st\<lparr>callbacks := t\<rparr>))
         | _ \<Rightarrow> Inl invalid_argument)
      else Inl invalid_argument)"

text \<open>A chain \<^verbatim>\<open>r.on(e1, cb1).on(e2, cb2)...\<close>, stopped by the first throw.\<close>

fun on_chain :: "call_state \<Rightarrow> (jsval \<times> jsval) list \<Rightarrow> jsval + call_state" where
  "on_chain st [] = Inr st"
| "on_chain st ((e, cb) # rest) =
     (case on st e cb of Inl x \<Rightarrow> Inl x | Inr (r, st') \<Rightarrow> on_chain st' rest)"

text \<open>
  \<^verbatim>\<open>call(pack, block, args)\<close> issues the request and returns the registrar \<open>r\<close> (a fresh
  reference) with an empty table.
\<close>

definition call :: "builtins \<Rightarrow> client \<Rightarrow> nat \<Rightarrow> string \<Rightarrow> string \<Rightarrow> jsval \<Rightarrow> effect list \<times> call_state" where
  "call B c r pack block args =
     ([Request \<lparr> http_method = ''POST'',
                 uri = blockURLBuilder pack block,
                 headers = [(''User-Agent'', ''RapidAPIConnect_NodeJS''),
                            (''Content-Type'', ''multipart/form-data'')],
                 auth_user = project c,
                 auth_pass = key c,
                 sendImmediately = True,
                 formData = Some (if to_boolean B args then args else Data (JObj [])) \<rparr>],
      \<lparr> registrar = r, callbacks = \<lparr> own = Map.empty, proto = ObjectPrototype \<rparr> \<rparr>)"

subsection \<open>The response handler\<close>

text \<open>
  \<^verbatim>\<open>__callbacks.hasOwnProperty(v)\<close>. The method is looked up on the table itself: a handler
  registered under the name \<^verbatim>\<open>hasOwnProperty\<close> is an own property and is what gets called,
  with \<^verbatim>\<open>v\<close>; its result is then read as a boolean. Otherwise the inherited method answers
  whether the table has an own property named \<^verbatim>\<open>ToPropertyKey(v)\<close>.
\<close>

definition callbacks_hasOwnProperty ::
  "builtins \<Rightarrow> handlers \<Rightarrow> cbtable \<Rightarrow> json option \<Rightarrow> bool comp" where
  "callbacks_hasOwnProperty B H t v =
     (case own t ''hasOwnProperty'' of
        Some f \<Rightarrow> seq (invoke H f [of_opt v]) (\<lambda>res. ret (to_boolean B res))
      | None \<Rightarrow>
          (case to_string_opt B v of
             None \<Rightarrow> throw TypeError
           | Some k \<Rightarrow> ret (own t k \<noteq> None)))"

definition object_prototype_methods :: "string list" where
  "object_prototype_methods =
     [''constructor'', ''__defineGetter__'', ''__defineSetter__'', ''hasOwnProperty'',
      ''__lookupGetter__'', ''__lookupSetter__'', ''isPrototypeOf'', ''propertyIsEnumerable'',
      ''toString'', ''valueOf'', ''toLocaleString'']"

definition function_prototype_methods :: "string list" where
  "function_prototype_methods = [''apply'', ''bind'', ''call'', ''toString'', ''constructor'']"

text \<open>
  \<^verbatim>\<open>__callbacks[k](arg)\<close> when \<open>k\<close> is not an own property (the source guards the call with
  \<^verbatim>\<open>hasOwnProperty\<close>, so this is reached only when a handler of that name answered). The
  value comes from the prototype chain: \<^verbatim>\<open>__proto__\<close> reads the prototype itself, a
  function once a handler was assigned under that name; a built-in method is called (and
  the model stops there); everything else is not callable.
\<close>

fun inherited_methods :: "proto \<Rightarrow> string list" where
  "inherited_methods ObjectPrototype = object_prototype_methods"
| "inherited_methods (FunctionObject f) = function_prototype_methods @ object_prototype_methods"

definition inherited_call :: "handlers \<Rightarrow> proto \<Rightarrow> string \<Rightarrow> jsval \<Rightarrow> jsval comp" where
  "inherited_call H p k arg =
     (if k = ''__proto__'' then
        (case p of ObjectPrototype \<Rightarrow> throw TypeError | FunctionObject f \<Rightarrow> invoke H f [arg])
      else if k \<in> set (inherited_methods p) then ([], Inl (CallsInherited k))
      else throw TypeError)"

definition callbacks_call ::
  "builtins \<Rightarrow> handlers \<Rightarrow> cbtable \<Rightarrow> json option \<Rightarrow> jsval \<Rightarrow> jsval comp" where
  "callbacks_call B H t v arg =
     (case to_string_opt B v of
        None \<Rightarrow> throw TypeError
      | Some k \<Rightarrow>
          (case own t k of
             Some f \<Rightarrow> invoke H f [arg]
           | None \<Rightarrow> inherited_call H (proto t) k arg))"

text \<open>
  \<^verbatim>\<open>try { if (typeof body != 'object') body = JSON.parse(body); } catch (e) { error = e; }\<close>
  gives the pair (error, body) the rest of the handler works with. The transport passes the
  body as text, and passes \<^verbatim>\<open>undefined\<close> when the request failed.
\<close>

definition parse_body :: "builtins \<Rightarrow> jsval \<Rightarrow> jsval \<Rightarrow> jsval \<times> jsval" where
  "parse_body B error body =
     (if typeof body \<noteq> ''object'' then
        (case JSON_parse_value B body of
           Inr v \<Rightarrow> (error, Data v)
         | Inl n \<Rightarrow> (ErrorObj n, body))
      else (error, body))"

text \<open>
  \<^verbatim>\<open>error || response.statusCode != 200 || !(body.hasOwnProperty('outcome'))\<close>, left to
  right. The response is \<open>None\<close> when the transport passes \<^verbatim>\<open>undefined\<close>, and the status
  code of the response otherwise.
\<close>

definition is_failure :: "builtins \<Rightarrow> jsval \<Rightarrow> int option \<Rightarrow> jsval \<Rightarrow> jsval + bool" where
  "is_failure B error response body =
     (if to_boolean B error then Inr True
      else case response of
             None \<Rightarrow> Inl TypeError
           | Some statusCode \<Rightarrow>
               (if statusCode \<noteq> 200 then Inr True
                else case hasOwnProperty_outcome body of
                       Inl e \<Rightarrow> Inl e
                     | Inr b \<Rightarrow> Inr (\<not> b)))"

definition call_response ::
  "builtins \<Rightarrow> handlers \<Rightarrow> call_state \<Rightarrow> jsval \<Rightarrow> int option \<Rightarrow> jsval \<Rightarrow> unit comp" where
  "call_response B H st error0 response body0 =
     (case parse_body B error0 body0 of
        (error, body) \<Rightarrow>
          seq (lift (is_failure B error response body)) (\<lambda>failed.
            if failed then
              seq (callbacks_hasOwnProperty B H (callbacks st) (Some (JStr ''error''))) (\<lambda>found.
                if found then
                  seq (callbacks_call B H (callbacks st) (Some (JStr ''error'')) body)
                    (\<lambda>res. ret ())
                else ret ())
            else
              seq (lift (get_field body ''outcome'')) (\<lambda>outcome.
                seq (callbacks_hasOwnProperty B H (callbacks st) outcome) (\<lambda>found.
                  if found then
                    seq (lift (get_field body ''payload'')) (\<lambda>payload.
                      seq (callbacks_call B H (callbacks st) outcome (of_opt payload))
                        (\<lambda>res. ret ()))
                  else ret ()))))"

section \<open>listen: token exchange and the socket session\<close>

text \<open>
  The channel identity, the template literal
  \<^verbatim>\<open>`${pack}.${event}_${this.project}:${this.key}`\<close>: the literal chunks and the
  substitutions in order. The four values are strings.
\<close>

definition user_id :: "client \<Rightarrow> string \<Rightarrow> string \<Rightarrow> string" where
  "user_id c pack event = concat [pack, ''.'', event, ''_'', project c, '':'', key c]"

text \<open>
  The \<^verbatim>\<open>callbacks\<close> argument of \<^verbatim>\<open>listen\<close> is destructured, so all the function sees of it
  is whether it is \<^verbatim>\<open>undefined\<close> (also: omitted) or \<^verbatim>\<open>null\<close>, and otherwise the values of
  its \<^verbatim>\<open>onMessage\<close> and \<^verbatim>\<open>onClose\<close> properties (\<open>Undefined\<close> when absent).
\<close>

datatype listen_callbacks = CbUndefined | CbNull | CbObject jsval jsval

text \<open>What the closures of one \<^verbatim>\<open>listen\<close> call hold.\<close>

record subscription =
  channel :: string
  onMessage :: jsval
  onClose :: jsval

text \<open>A destructuring default replaces \<^verbatim>\<open>undefined\<close> only.\<close>

fun default_to :: "fname \<Rightarrow> jsval \<Rightarrow> jsval" where
  "default_to d Undefined = Fun d"
| "default_to d v = v"

definition listen ::
  "builtins \<Rightarrow> client \<Rightarrow> string \<Rightarrow> string \<Rightarrow> jsval \<Rightarrow> listen_callbacks \<Rightarrow> subscription comp" where
  "listen B c pack event params cbs =
     (case cbs of
        CbUndefined \<Rightarrow> throw TypeError
      | CbNull \<Rightarrow> throw TypeError
      | CbObject m cl \<Rightarrow>
          ([Request \<lparr> http_method = ''GET'',
                      uri = concat [callbackBaseURL, ''/api/get_token?user_id='',
                                    user_id c pack event, ''&params='',
                                    subst_opt (JSON_stringify B params)],
                      headers = [(''Content-Type'', ''application/json'')],
                      auth_user = project c,
                      auth_pass = key c,
                      sendImmediately = True,
                      formData = None \<rparr>],
           Inr \<lparr> channel = user_id c pack event,
                 onMessage = default_to NoopOnMessage m,
                 onClose = default_to NoopOnClose cl \<rparr>))"

text \<open>
  The callback of the token-exchange request:
  \<^verbatim>\<open>const { token } = JSON.parse(body)\<close>, then \<^verbatim>\<open>new WebSocket(sock_url)\<close>. Neither
  \<^verbatim>\<open>error\<close> nor \<^verbatim>\<open>response\<close> is read.
\<close>

definition token_response ::
  "builtins \<Rightarrow> subscription \<Rightarrow> jsval \<Rightarrow> int option \<Rightarrow> jsval \<Rightarrow> unit comp" where
  "token_response B sub error response body =
     (case JSON_parse_value B body of
        Inl n \<Rightarrow> throw (ErrorObj n)
      | Inr v \<Rightarrow>
          seq (lift (get_field (Data v) ''token'')) (\<lambda>token.
            case to_string_opt B token of
              None \<Rightarrow> throw TypeError
            | Some s \<Rightarrow>
                ([WsConnect (websocketBaseURL @ ''/socket/websocket?token='' @ s)], Inr ())))"

text \<open>
  \<^verbatim>\<open>ws.onmessage\<close>: \<^verbatim>\<open>const { payload, event } = JSON.parse(msg.data)\<close>, then the prefix
  test, then \<^verbatim>\<open>onMessage(payload.body)\<close>.
\<close>

definition ws_onmessage :: "builtins \<Rightarrow> handlers \<Rightarrow> subscription \<Rightarrow> jsval \<Rightarrow> unit comp" where
  "ws_onmessage B H sub data =
     (case JSON_parse_value B data of
        Inl n \<Rightarrow> throw (ErrorObj n)
      | Inr v \<Rightarrow>
          seq (lift (get_field (Data v) ''payload'')) (\<lambda>payload.
            seq (lift (get_field (Data v) ''event'')) (\<lambda>event.
              seq (lift (startsWith event ''phx_'')) (\<lambda>internal.
                if \<not> internal then
                  seq (lift (get_field (of_opt payload) ''body'')) (\<lambda>body.
                    seq (call_value H (onMessage sub) [of_opt body]) (\<lambda>res. ret ()))
                else ret ()))))"

definition ws_onclose :: "handlers \<Rightarrow> subscription \<Rightarrow> jsval \<Rightarrow> jsval \<Rightarrow> unit comp" where
  "ws_onclose H sub code reason =
     seq (call_value H (onClose sub) [code, reason]) (\<lambda>res. ret ())"

definition join_frame :: "string \<Rightarrow> json" where
  "join_frame uid =
     JObj [(''topic'', JStr (''users_socket:'' @ uid)),
           (''event'', JStr ''phx_join''),
           (''payload'', JObj []),
           (''ref'', JStr ''1'')]"

definition ws_onopen :: "builtins \<Rightarrow> subscription \<Rightarrow> unit comp" where
  "ws_onopen B sub = ([WsSend (json_stringify B (join_frame (channel sub)))], Inr ())"

text \<open>
  A session is the sequence of events the socket delivers to the three hooks. A hook that
  throws is an uncaught exception: nothing runs after it.
\<close>

datatype ws_event = Open | Message jsval | Closed jsval jsval

fun ws_handle :: "builtins \<Rightarrow> handlers \<Rightarrow> subscription \<Rightarrow> ws_event \<Rightarrow> unit comp" where
  "ws_handle B H sub Open = ws_onopen B sub"
| "ws_handle B H sub (Message data) = ws_onmessage B H sub data"
| "ws_handle B H sub (Closed code reason) = ws_onclose H sub code reason"

fun session :: "builtins \<Rightarrow> handlers \<Rightarrow> subscription \<Rightarrow> ws_event list \<Rightarrow> unit comp" where
  "session B H sub [] = ret ()"
| "session B H sub (ev # evs) = seq (ws_handle B H sub ev) (\<lambda>u. session B H sub evs)"

fun sent :: "effect list \<Rightarrow> string list" where
  "sent [] = []"
| "sent (WsSend s # es) = s # sent es"
| "sent (e # es) = sent es"

section \<open>The whole life of one call\<close>

text \<open>
  \<^verbatim>\<open>call(pack, block, args).on(e1, cb1).on(e2, cb2)...\<close>, and then the response arrives:
  the request, the registrations in order, the response handler.
\<close>

definition call_session ::
  "builtins \<Rightarrow> handlers \<Rightarrow> client \<Rightarrow> string \<Rightarrow> string \<Rightarrow> jsval \<Rightarrow> (jsval \<times> jsval) list
     \<Rightarrow> jsval \<Rightarrow> int option \<Rightarrow> jsval \<Rightarrow> unit comp" where
  "call_session B H c pack block args regs error response body =
     (case call B c 0 pack block args of
        (tr, st) \<Rightarrow>
          (case on_chain st regs of
             Inl e \<Rightarrow> (tr, Inl (Throw e))
           | Inr st' \<Rightarrow> seq (tr, Inr ()) (\<lambda>u. call_response B H st' error response body)))"

section \<open>The token-exchange URI on the wire\<close>

definition upper_hex_digit :: "nat \<Rightarrow> char" where
  "upper_hex_digit n = ''0123456789ABCDEF'' ! (n mod 16)"

definition percent_hex :: "char \<Rightarrow> string" where
  "percent_hex c = [CHR ''%'', upper_hex_digit (of_char c div 16), upper_hex_digit (of_char c)]"

text \<open>
  Not code of this repository: what the transport does with the \<^verbatim>\<open>uri\<close> option before it
  sends the request. The request library parses the string with Node's \<^verbatim>\<open>url.parse\<close>,
  which cuts a fragment off at the first \<^verbatim>\<open>#\<close> and percent-encodes a fixed list of
  characters: the quote characters, the braces, the bar, the backslash, the caret, the
  backtick, the angle brackets, the space, CR, LF and tab. Every other character is sent
  as it stands.
\<close>

definition url_autoescape_chars :: string where
  "url_autoescape_chars =
     [CHR 0x27, CHR ''{'', CHR ''}'', CHR ''|'', CHR 0x5C, CHR ''^'', CHR 0x60,
      CHR ''<'', CHR ''>'', CHR 0x22, CHR '' '', CHR 0x0D, CHR 0x0A, CHR 0x09]"

definition url_autoescape :: "string \<Rightarrow> string" where
  "url_autoescape s =
     concat (map (\<lambda>c. if c \<in> set url_autoescape_chars then percent_hex c else [c]) s)"

definition sent_uri :: "string \<Rightarrow> string" where
  "sent_uri u = url_autoescape (takeWhile (\<lambda>c. c \<noteq> CHR ''#'') u)"

text \<open>
  What a URI's query carries under a name, as its receiver reads it: the text after the
  first \<^verbatim>\<open>?\<close> is cut at every \<^verbatim>\<open>&\<close>, each piece at its first \<^verbatim>\<open>=\<close>, and the value is
  percent-decoded.
\<close>

fun split_on :: "char \<Rightarrow> string \<Rightarrow> string list" where
  "split_on d [] = [[]]"
| "split_on d (c # s) =
     (if c = d then [] # split_on d s
      else (case split_on d s of [] \<Rightarrow> [[c]] | w # ws \<Rightarrow> (c # w) # ws))"

definition hex_value :: "char \<Rightarrow> nat option" where
  "hex_value c =
     map_of [(CHR ''0'', 0), (CHR ''1'', 1), (CHR ''2'', 2), (CHR ''3'', 3), (CHR ''4'', 4),
             (CHR ''5'', 5), (CHR ''6'', 6), (CHR ''7'', 7), (CHR ''8'', 8), (CHR ''9'', 9),
             (CHR ''A'', 10), (CHR ''B'', 11), (CHR ''C'', 12), (CHR ''D'', 13),
             (CHR ''E'', 14), (CHR ''F'', 15),
             (CHR ''a'', 10), (CHR ''b'', 11), (CHR ''c'', 12), (CHR ''d'', 13),
             (CHR ''e'', 14), (CHR ''f'', 15)] c"

definition decode_pair :: "char \<Rightarrow> char \<Rightarrow> char option" where
  "decode_pair a b =
     (case (hex_value a, hex_value b) of
        (Some h, Some l) \<Rightarrow> Some (char_of (16 * h + l))
      | _ \<Rightarrow> None)"

fun percent_decode :: "string \<Rightarrow> string" where
  "percent_decode [] = []"
| "percent_decode [c] = [c]"
| "percent_decode [c, d] = [c, d]"
| "percent_decode (c # a # b # s) =
     (case (c = CHR ''%'', decode_pair a b) of
        (True, Some d) \<Rightarrow> d # percent_decode s
      | _ \<Rightarrow> c # percent_decode (a # b # s))"

definition query_value :: "string \<Rightarrow> string \<Rightarrow> string option" where
  "query_value k u =
     map_option percent_decode
       (map_of (map (\<lambda>p. (takeWhile (\<lambda>c. c \<noteq> CHR ''='') p,
                           drop 1 (dropWhile (\<lambda>c. c \<noteq> CHR ''='') p)))
                    (split_on (CHR ''&'') (drop 1 (dropWhile (\<lambda>c. c \<noteq> CHR ''?'') u)))) k)"

section \<open>The specification's reading of the token-exchange URL\<close>




section \<open>Worked inputs\<close>

text \<open>
  \<^verbatim>\<open>JSON.parse\<close> on the texts of the examples below, which is all the examples need of it;
  the parser of the theorems is arbitrary.
\<close>

definition example_parse :: "string \<Rightarrow> string + json" where
  \<open>example_parse s =
     (if s = ''{"outcome":"success","payload":"done"}''
        then Inr (JObj [(''outcome'', JStr ''success''), (''payload'', JStr ''done'')])
      else if s = ''{"outcome":"hasOwnProperty","payload":"p"}''
        then Inr (JObj [(''outcome'', JStr ''hasOwnProperty''), (''payload'', JStr ''p'')])
      else if s = ''{"outcome":"__proto__","payload":"p"}''
        then Inr (JObj [(''outcome'', JStr ''__proto__''), (''payload'', JStr ''p'')])
      else if s = ''{"event":"phx_reply","payload":{"body":"x"}}''
        then Inr (JObj [(''event'', JStr ''phx_reply''),
                        (''payload'', JObj [(''body'', JStr ''x'')])])
      else if s = ''{"event":"alert_fired","payload":{"body":"x"}}''
        then Inr (JObj [(''event'', JStr ''alert_fired''),
                        (''payload'', JObj [(''body'', JStr ''x'')])])
      else if s = ''{"token":"t0"}'' then Inr (JObj [(''token'', JStr ''t0'')])
      else if s = ''null'' then Inr JNull
      else Inl ''SyntaxError'')\<close>

definition example_builtins :: builtins where
  "example_builtins =
     \<lparr> JSON_parse = example_parse,
       Number_toString = (\<lambda>n. ''0''),
       Number_toBoolean = (\<lambda>n. False),
       Number_isFinite = (\<lambda>n. True) \<rparr>"

definition example_client :: client where
  "example_client = \<lparr> project = ''p1'', key = ''k1'' \<rparr>"

text \<open>Handlers that return nothing, and handlers of which the first returns \<^verbatim>\<open>true\<close>.\<close>

definition quiet :: handlers where
  "quiet n args = Inr Undefined"

definition first_says_true :: handlers where
  "first_says_true n args = (if n = 1 then Inr (Data (JBool True)) else Inr Undefined)"

definition example_subscription :: subscription where
  "example_subscription =
     \<lparr> channel = ''weather.alert_p1:k1'', onMessage = Fun (UserFn 1), onClose = Fun (UserFn 2) \<rparr>"

section \<open>Sequencing lemmas\<close>

lemma seq_ret: "seq (ret x) f = f x"
  by (simp add: seq_def ret_def split: prod.splits)

lemma seq_throw: "seq (throw e) f = throw e"
  by (simp add: seq_def throw_def)

lemma lift_Inr: "lift (Inr x) = ret x"
  by (simp add: lift_def)

lemma lift_Inl: "lift (Inl e) = throw e"
  by (simp add: lift_def)

lemma fst_seq:
  "fst (seq m f) = fst m @ (case snd m of Inl a \<Rightarrow> [] | Inr x \<Rightarrow> fst (f x))"
  by (cases m) (simp add: seq_def split: sum.splits prod.splits)

lemma fst_ret: "fst (ret x) = []"
  by (simp add: ret_def)

lemma fst_throw: "fst (throw e) = []"
  by (simp add: throw_def)

lemma fst_lift: "fst (lift r) = []"
  by (simp add: lift_def fst_ret fst_throw split: sum.splits)

lemma fst_invoke: "fst (invoke H f args) = [Invoke f args]"
  by (simp add: invoke_def)

lemma seq_invoke_result:
  "seq (invoke H f args) (\<lambda>res. ret u) =
     ([Invoke f args], case snd (invoke H f args) of Inl a \<Rightarrow> Inl a | Inr v \<Rightarrow> Inr u)"
  by (simp add: seq_def invoke_def ret_def split: sum.splits fname.splits)

lemma seq_invoke_unit:
  "fst (seq (invoke H f args) (\<lambda>res. ret u)) = [Invoke f args]"
  by (simp add: fst_seq invoke_def ret_def split: sum.splits)

section \<open>Registration\<close>

text \<open>
  Ill-typed arguments: \<^verbatim>\<open>on\<close> throws the message string and returns no state, so the table
  is as it was.
\<close>

lemma on_ill_typed:
  assumes "typeof e \<noteq> ''string'' \<or> typeof cb \<noteq> ''function''"
  shows "on st e cb = Inl invalid_argument"
  using assms by (auto simp: on_def)

lemma typeof_string: "typeof e = ''string'' \<longleftrightarrow> (\<exists>k. e = Str k)"
  by (cases e rule: typeof.cases) simp_all

lemma typeof_function: "typeof cb = ''function'' \<longleftrightarrow> (\<exists>f. cb = Fun f)"
  by (cases cb rule: typeof.cases) simp_all

text \<open>
  Well-typed arguments, on a table whose prototype was never replaced, and a name other than
  \<^verbatim>\<open>__proto__\<close>: the handler becomes the own property of that name and \<^verbatim>\<open>r\<close> is returned.
\<close>

lemma on_well_typed:
  assumes "proto (callbacks st) = ObjectPrototype" and "k \<noteq> ''__proto__''"
  shows "on st (Str k) (Fun f) =
           Inr (registrar st,
                st\<lparr>callbacks := (callbacks st)\<lparr>own := (own (callbacks st))(k \<mapsto> f)\<rparr>\<rparr>)"
  using assms by (simp add: on_def callbacks_set_def)

lemma on_keeps_object_prototype:
  assumes "on st e cb = Inr (r, st')" and "proto (callbacks st) = ObjectPrototype"
    and "e \<noteq> Str ''__proto__''"
  shows "proto (callbacks st') = ObjectPrototype \<and> r = registrar st"
  using assms
  by (auto simp: on_def callbacks_set_def typeof_string typeof_function split: if_splits)

section \<open>Dispatch of the response\<close>

lemma callbacks_hasOwnProperty_builtin:
  assumes "own t ''hasOwnProperty'' = None" and "to_string_opt B v = Some k"
  shows "callbacks_hasOwnProperty B H t v = ret (own t k \<noteq> None)"
  using assms by (simp add: callbacks_hasOwnProperty_def)

lemma callbacks_call_own:
  assumes "to_string_opt B v = Some k" and "own t k = Some f"
  shows "callbacks_call B H t v arg = invoke H f [arg]"
  using assms by (simp add: callbacks_call_def)

lemma fst_callbacks_hasOwnProperty:
  "own t ''hasOwnProperty'' = None \<Longrightarrow> fst (callbacks_hasOwnProperty B H t v) = []"
  by (simp add: callbacks_hasOwnProperty_def fst_ret fst_throw split: option.splits)

lemma length_inherited_call: "length (fst (inherited_call H p k arg)) \<le> 1"
  by (simp add: inherited_call_def fst_throw fst_invoke split: proto.splits)

lemma length_callbacks_call: "length (fst (callbacks_call B H t v arg)) \<le> 1"
  using length_inherited_call [of H "proto t" _ arg]
  by (simp add: callbacks_call_def fst_throw fst_invoke split: option.splits)

text \<open>
  The failure branch, when no handler is named \<^verbatim>\<open>hasOwnProperty\<close>. Without an \<^verbatim>\<open>error\<close>
  handler nothing happens and the callback returns. With one, it is the only function
  called, with the body as the parse attempt left it, and the callback ends as that call
  does.
\<close>

lemma call_response_failure:
  assumes shadow: "own (callbacks st) ''hasOwnProperty'' = None"
    and pb: "parse_body B error0 body0 = (error, body)"
    and fail: "is_failure B error response body = Inr True"
  shows "call_response B H st error0 response body0 =
           (case own (callbacks st) ''error'' of
              None \<Rightarrow> ([], Inr ())
            | Some f \<Rightarrow>
                ([Invoke f [body]],
                 case snd (invoke H f [body]) of Inl a \<Rightarrow> Inl a | Inr v \<Rightarrow> Inr ()))"
proof (cases "own (callbacks st) ''error''")
  case None
  then show ?thesis
    using shadow pb fail
    by (simp add: call_response_def lift_Inr seq_ret callbacks_hasOwnProperty_builtin)
      (simp add: ret_def)
next
  case (Some f)
  then show ?thesis
    using shadow pb fail
    by (simp add: call_response_def lift_Inr seq_ret callbacks_hasOwnProperty_builtin
        callbacks_call_own seq_invoke_result)
qed

text \<open>
  The success branch, when no handler is named \<^verbatim>\<open>hasOwnProperty\<close> and the body has no
  property of that name: the handler stored under the text of \<^verbatim>\<open>outcome\<close>, if there is one,
  is the only function called, with \<^verbatim>\<open>payload\<close>.
\<close>

lemma call_response_success:
  assumes shadow: "own (callbacks st) ''hasOwnProperty'' = None"
    and pb: "parse_body B error0 body0 = (error, Data (JObj kvs))"
    and ok: "\<not> to_boolean B error" "response = Some 200"
    and body: "map_of kvs ''hasOwnProperty'' = None" "map_of kvs ''outcome'' = Some outcome"
    and name: "json_to_string B outcome = Some k"
  shows "fst (call_response B H st error0 response body0) =
           (case own (callbacks st) k of
              None \<Rightarrow> []
            | Some f \<Rightarrow> [Invoke f [of_opt (map_of kvs ''payload'')]])"
proof -
  have nf: "is_failure B error response (Data (JObj kvs)) = Inr False"
    using ok body by (simp add: is_failure_def)
  have key: "to_string_opt B (Some outcome) = Some k"
    using name by simp
  show ?thesis
  proof (cases "own (callbacks st) k")
    case None
    then show ?thesis
      using pb nf body(2)
      by (simp add: call_response_def lift_Inr seq_ret fst_ret
          callbacks_hasOwnProperty_builtin [OF shadow key])
  next
    case (Some f)
    then show ?thesis
      using pb nf body(2)
      by (simp add: call_response_def lift_Inr seq_ret seq_invoke_unit
          callbacks_hasOwnProperty_builtin [OF shadow key] callbacks_call_own [OF key Some])
  qed
qed

text \<open>When no handler is named \<^verbatim>\<open>hasOwnProperty\<close>, a response causes at most one effect.\<close>

lemma call_response_at_most_one:
  assumes shadow: "own (callbacks st) ''hasOwnProperty'' = None"
  shows "length (fst (call_response B H st error0 response body0)) \<le> 1"
proof -
  have tail: "length (fst (seq (callbacks_call B H t v arg) (\<lambda>res. ret ()))) \<le> 1" for t v arg
    using length_callbacks_call [of B H t v arg]
    by (simp add: fst_seq fst_ret split: sum.splits)
  have test: "length (fst (seq (callbacks_hasOwnProperty B H (callbacks st) v)
                 (\<lambda>found. if found then seq (callbacks_call B H (callbacks st) w arg) (\<lambda>res. ret ())
                            else ret ()))) \<le> 1" for v w arg
    using tail [of "callbacks st" w arg]
    by (simp add: fst_seq fst_callbacks_hasOwnProperty [OF shadow] fst_ret split: sum.splits)
  have inner: "length (fst (seq (callbacks_hasOwnProperty B H (callbacks st) v)
                 (\<lambda>found. if found then
                     seq (lift (get_field body ''payload'')) (\<lambda>payload.
                       seq (callbacks_call B H (callbacks st) v (of_opt payload)) (\<lambda>res. ret ()))
                            else ret ()))) \<le> 1" for v body
    using tail [of "callbacks st" v]
    by (simp add: fst_seq [of "callbacks_hasOwnProperty B H (callbacks st) v"]
        fst_seq [of "lift (get_field body ''payload'')"]
        fst_callbacks_hasOwnProperty [OF shadow] fst_ret fst_lift split: sum.splits)
  show ?thesis
    using test inner
    by (simp add: call_response_def fst_seq [of "lift r" for r] fst_lift split: prod.splits sum.splits)
qed

text \<open>
  The same over the whole life of a call: registrations that do not use the name
  \<^verbatim>\<open>hasOwnProperty\<close> leave the inherited method in place, and the response then calls at
  most one function.
\<close>

lemma on_preserves_no_shadow:
  assumes "on st e cb = Inr (r, st')" and "e \<noteq> Str ''hasOwnProperty''"
    and "own (callbacks st) ''hasOwnProperty'' = None"
  shows "own (callbacks st') ''hasOwnProperty'' = None"
  using assms
  by (auto simp: on_def callbacks_set_def typeof_string typeof_function split: if_splits)

lemma on_chain_preserves_no_shadow:
  assumes "on_chain st regs = Inr st'" and "Str ''hasOwnProperty'' \<notin> fst ` set regs"
    and "own (callbacks st) ''hasOwnProperty'' = None"
  shows "own (callbacks st') ''hasOwnProperty'' = None"
  using assms
proof (induction regs arbitrary: st)
  case Nil
  then show ?case by simp
next
  case (Cons reg regs)
  obtain e cb where reg: "reg = (e, cb)" by (cases reg)
  from Cons.prems(1) reg obtain r st1 where step: "on st e cb = Inr (r, st1)"
    and rest: "on_chain st1 regs = Inr st'"
    by (auto split: sum.splits)
  from Cons.prems(2) reg have "e \<noteq> Str ''hasOwnProperty''" by auto
  from on_preserves_no_shadow [OF step this Cons.prems(3)]
  have "own (callbacks st1) ''hasOwnProperty'' = None" .
  from Cons.IH [OF rest _ this] Cons.prems(2) show ?case by simp
qed

lemma invocations_append: "invocations (xs @ ys) = invocations xs @ invocations ys"
  by (induction xs rule: invocations.induct) simp_all

lemma length_invocations: "length (invocations xs) \<le> length xs"
  by (induction xs rule: invocations.induct) simp_all

lemma call_session_at_most_one:
  assumes "Str ''hasOwnProperty'' \<notin> fst ` set regs"
  shows "length (invocations
           (fst (call_session B H c pack block args regs error response body))) \<le> 1"
proof (cases "on_chain (snd (call B c 0 pack block args)) regs")
  case (Inl e)
  then show ?thesis by (simp add: call_session_def call_def)
next
  case (Inr st')
  have "own (callbacks (snd (call B c 0 pack block args))) ''hasOwnProperty'' = None"
    by (simp add: call_def)
  from on_chain_preserves_no_shadow [OF Inr assms this]
  have "length (fst (call_response B H st' error response body)) \<le> 1"
    by (rule call_response_at_most_one)
  with length_invocations [of "fst (call_response B H st' error response body)"]
  have "length (invocations (fst (call_response B H st' error response body))) \<le> 1"
    by simp
  with Inr show ?thesis
    by (simp add: call_session_def call_def fst_seq invocations_append)
qed

section \<open>The socket session never sends but on open\<close>

lemma sent_append: "sent (xs @ ys) = sent xs @ sent ys"
  by (induction xs rule: sent.induct) simp_all

lemma sent_call_value: "sent (fst (call_value H v args)) = []"
  by (cases v) (simp_all add: fst_invoke fst_throw)

lemma sent_ws_onmessage: "sent (fst (ws_onmessage B H sub data)) = []"
  by (simp add: ws_onmessage_def fst_seq fst_lift fst_ret fst_throw sent_append sent_call_value
      split: sum.splits)

lemma sent_ws_onclose: "sent (fst (ws_onclose H sub code reason)) = []"
  by (simp add: ws_onclose_def fst_seq fst_ret sent_append sent_call_value split: sum.splits)

lemma sent_session_without_open:
  "Open \<notin> set evs \<Longrightarrow> sent (fst (session B H sub evs)) = []"
proof (induction evs)
  case Nil
  then show ?case by (simp add: fst_ret)
next
  case (Cons ev evs)
  then show ?case
    by (cases ev)
      (simp_all add: fst_seq sent_append sent_ws_onmessage sent_ws_onclose split: sum.splits)
qed

section \<open>What the query carries\<close>

lemma url_autoescape_append: "url_autoescape (a @ b) = url_autoescape a @ url_autoescape b"
  by (simp add: url_autoescape_def)

lemma takeWhile_no_hash: "CHR ''#'' \<notin> set s \<Longrightarrow> takeWhile (\<lambda>c. c \<noteq> CHR ''#'') s = s"
  by (induction s) auto

lemma percent_decode_plain:
  "CHR ''%'' \<noteq> c \<Longrightarrow> percent_decode (c # s) = c # percent_decode s"
  by (cases "c # s" rule: percent_decode.cases) (auto split: option.splits)

lemma percent_hex_decodes:
  "list_all (\<lambda>c. case percent_hex c of
                    [p, a, b] \<Rightarrow> p = CHR ''%'' \<and> decode_pair a b = Some c
                  | _ \<Rightarrow> False) url_autoescape_chars"
  by code_simp

lemma percent_decode_escaped:
  assumes "c \<in> set url_autoescape_chars"
  shows "percent_decode (percent_hex c @ s) = c # percent_decode s"
proof -
  from percent_hex_decodes assms
  have "case percent_hex c of
          [p, a, b] \<Rightarrow> p = CHR ''%'' \<and> decode_pair a b = Some c
        | _ \<Rightarrow> False"
    by (simp add: list_all_iff)
  then obtain a b where "percent_hex c = [CHR ''%'', a, b]" and "decode_pair a b = Some c"
    by (auto split: list.splits)
  then show ?thesis by simp
qed

lemma percent_decode_url_autoescape:
  "CHR ''%'' \<notin> set s \<Longrightarrow> percent_decode (url_autoescape s) = s"
proof (induction s)
  case Nil
  then show ?case by (simp add: url_autoescape_def)
next
  case (Cons c s)
  have step: "url_autoescape (c # s) =
      (if c \<in> set url_autoescape_chars then percent_hex c else [c]) @ url_autoescape s"
    by (simp add: url_autoescape_def)
  from Cons show ?case
    by (simp add: step percent_decode_escaped percent_decode_plain del: percent_decode.simps)
qed

lemma set_url_autoescape:
  "d \<notin> set s \<Longrightarrow> d \<notin> set ''%0123456789ABCDEF'' \<Longrightarrow> d \<notin> set (url_autoescape s)"
  by (induction s)
    (auto simp: url_autoescape_def url_autoescape_chars_def percent_hex_def upper_hex_digit_def)

lemma split_on_last: "d \<notin> set s \<Longrightarrow> split_on d s = [s]"
  by (induction s) auto

lemma split_on_first: "d \<notin> set x \<Longrightarrow> split_on d (x @ d # y) = x # split_on d y"
  by (induction x) auto

lemma sent_uri_token_request:
  assumes "CHR ''#'' \<notin> set uid" and "CHR ''#'' \<notin> set jt"
  shows "sent_uri (''https://webhooks.rapidapi.io/api/get_token?user_id='' @ uid
                     @ ''&params='' @ jt)
           = ''https://webhooks.rapidapi.io/api/get_token?user_id='' @ url_autoescape uid
               @ ''&params='' @ url_autoescape jt"
proof -
  have base: "url_autoescape ''https://webhooks.rapidapi.io/api/get_token?user_id=''
                = ''https://webhooks.rapidapi.io/api/get_token?user_id=''"
    by (simp add: url_autoescape_def url_autoescape_chars_def)
  have sep: "url_autoescape ''&params='' = ''&params=''"
    by (simp add: url_autoescape_def url_autoescape_chars_def)
  have "CHR ''#'' \<notin> set (''https://webhooks.rapidapi.io/api/get_token?user_id='' @ uid
                        @ ''&params='' @ jt)"
    using assms by simp
  from takeWhile_no_hash [OF this] show ?thesis
    unfolding sent_uri_def by (simp only: url_autoescape_append base sep)
qed

text \<open>
  When the JSON text has no \<^verbatim>\<open>&\<close>, \<^verbatim>\<open>#\<close> or \<^verbatim>\<open>%\<close> (and the channel identity no \<^verbatim>\<open>&\<close>
  or \<^verbatim>\<open>#\<close>), the transport's escaping is enough: the receiver reads the JSON text back
  from \<^verbatim>\<open>params\<close>.
\<close>

lemma query_value_params_sent:
  assumes uid: "CHR ''#'' \<notin> set uid" "CHR ''&'' \<notin> set uid"
    and jt: "CHR ''#'' \<notin> set jt" "CHR ''&'' \<notin> set jt" "CHR ''%'' \<notin> set jt"
  shows "query_value ''params''
           (sent_uri (''https://webhooks.rapidapi.io/api/get_token?user_id='' @ uid
                        @ ''&params='' @ jt)) = Some jt"
proof -
  note sent = sent_uri_token_request [OF uid(1) jt(1)]
  have a1: "CHR ''&'' \<notin> set (''user_id='' @ url_autoescape uid)"
    using set_url_autoescape [OF uid(2)] by simp
  have a2: "CHR ''&'' \<notin> set (''params='' @ url_autoescape jt)"
    using set_url_autoescape [OF jt(2)] by simp
  have query: "drop 1 (dropWhile (\<lambda>c. c \<noteq> CHR ''?'')
                  (''https://webhooks.rapidapi.io/api/get_token?user_id='' @ url_autoescape uid
                     @ ''&params='' @ url_autoescape jt))
      = (''user_id='' @ url_autoescape uid) @ CHR ''&'' # (''params='' @ url_autoescape jt)"
    by simp
  have pairs: "split_on (CHR ''&'')
      ((''user_id='' @ url_autoescape uid) @ CHR ''&'' # (''params='' @ url_autoescape jt))
      = [''user_id='' @ url_autoescape uid, ''params='' @ url_autoescape jt]"
    by (simp only: split_on_first [OF a1] split_on_last [OF a2])
  show ?thesis
    unfolding query_value_def sent query pairs
    by (simp add: percent_decode_url_autoescape [OF jt(3)])
qed

section \<open>The claims\<close>

subsection \<open>C1: a successful response reaches the handler of its outcome, and no other\<close>

text \<open>
  C1 says: with no transport error, status 200 and a parsed body with an \<^verbatim>\<open>outcome\<close> field,
  exactly the handler registered under the text of \<^verbatim>\<open>outcome\<close> is invoked, with
  \<^verbatim>\<open>payload\<close> as its sole argument, and no other registered handler.

  The source asks \<^verbatim>\<open>__callbacks.hasOwnProperty(body.outcome)\<close> of the table itself. After
  \<^verbatim>\<open>call('pack', 'block').on('hasOwnProperty', h1).on('success', h2)\<close> that property is
  \<open>h1\<close>. On the response \<^verbatim>\<open>{"outcome":"success","payload":"done"}\<close> with status 200 the
  source calls \<open>h1\<close> with \<^verbatim>\<open>'success'\<close>; \<open>h1\<close> returns nothing, which reads as false, and
  \<open>h2\<close> is never called. (Lemma \<open>call_response_success\<close> is the claim for every table
  without a handler of that name and every body without a property of that name.)
\<close>

theorem handler_named_hasOwnProperty_intercepts_dispatch:
  \<open>invocations (fst (call_session example_builtins quiet example_client ''pack'' ''block''
      Undefined
      [(Str ''hasOwnProperty'', Fun (UserFn 1)), (Str ''success'', Fun (UserFn 2))]
      (Data JNull) (Some 200) (Str ''{"outcome":"success","payload":"done"}'')))
    = [(UserFn 1, [Str ''success''])]\<close>
  by code_simp

subsection \<open>C2: a failed response reaches the error handler\<close>

text \<open>
  C2 says: on a transport error, a status other than 200, a parse failure or a body without
  \<^verbatim>\<open>outcome\<close>, the \<^verbatim>\<open>error\<close> handler is invoked with the raw body (or the thrown parse
  error). Counterexample: status 500 and the raw body
  \<^verbatim>\<open>{"outcome":"success","payload":"done"}\<close>. The text parses, \<^verbatim>\<open>body\<close> is reassigned, and
  the handler receives the parsed object: not the raw text, and no parse error was thrown.
\<close>

theorem error_handler_receives_parsed_body:
  \<open>invocations (fst (call_session example_builtins quiet example_client ''pack'' ''block''
      Undefined
      [(Str ''error'', Fun (UserFn 1))]
      (Data JNull) (Some 500) (Str ''{"outcome":"success","payload":"done"}'')))
     = [(UserFn 1, [Data (JObj [(''outcome'', JStr ''success''), (''payload'', JStr ''done'')])])]
   \<and> Data (JObj [(''outcome'', JStr ''success''), (''payload'', JStr ''done'')])
        \<noteq> Str ''{"outcome":"success","payload":"done"}''
   \<and> JSON_parse_value example_builtins (Str ''{"outcome":"success","payload":"done"}'')
        = Inr (JObj [(''outcome'', JStr ''success''), (''payload'', JStr ''done'')])\<close>
  by code_simp

text \<open>
  C2 as amended. Take a table without a handler named \<^verbatim>\<open>hasOwnProperty\<close> and a response
  with a transport error, or a body that fails to parse, or a status other than 200, or
  status 200 and a body (not \<^verbatim>\<open>null\<close>, without a \<^verbatim>\<open>hasOwnProperty\<close> property of its own)
  that lacks \<^verbatim>\<open>outcome\<close>. If no \<^verbatim>\<open>error\<close> handler is registered the failure is silently
  dropped: no handler is invoked and the callback returns. If one is registered it is
  invoked once, no other handler is, and the callback ends as that call does. Its argument
  is the body as the parse attempt left it: the parsed value when the body was text that
  parsed, the body as received when it did not parse or was structured already. The thrown
  parse error is never passed.
\<close>

theorem failure_dispatch_to_error_handler:
  assumes shadow: "own (callbacks st) ''hasOwnProperty'' = None"
    and failed:
      "to_boolean B error0
       \<or> (typeof body0 \<noteq> ''object'' \<and> JSON_parse_value B body0 = Inl n)
       \<or> (response = Some code \<and> code \<noteq> 200)
       \<or> (response = Some 200
           \<and> hasOwnProperty_outcome (snd (parse_body B error0 body0)) = Inr False)"
  shows "call_response B H st error0 response body0 =
           (let arg = (if typeof body0 \<noteq> ''object''
                       then (case JSON_parse_value B body0 of
                               Inr v \<Rightarrow> Data v
                             | Inl m \<Rightarrow> body0)
                       else body0)
            in case own (callbacks st) ''error'' of
                 None \<Rightarrow> ([], Inr ())
               | Some f \<Rightarrow>
                   ([Invoke f [arg]],
                    case snd (invoke H f [arg]) of Inl a \<Rightarrow> Inl a | Inr v \<Rightarrow> Inr ()))"
proof -
  obtain error body where pb: "parse_body B error0 body0 = (error, body)"
    by (cases "parse_body B error0 body0")
  have body: "body = (if typeof body0 \<noteq> ''object''
                      then (case JSON_parse_value B body0 of Inr v \<Rightarrow> Data v | Inl m \<Rightarrow> body0)
                      else body0)"
    using pb by (auto simp: parse_body_def split: if_splits sum.splits)
  have error:
    "to_boolean B error0 \<or> (typeof body0 \<noteq> ''object'' \<and> JSON_parse_value B body0 = Inl n)
       \<Longrightarrow> to_boolean B error"
    using pb by (auto simp: parse_body_def split: if_splits sum.splits)
  have "is_failure B error response body = Inr True"
    using failed error pb by (auto simp: is_failure_def)
  from call_response_failure [OF shadow pb this] show ?thesis
    by (simp only: body Let_def)
qed

text \<open>
  The amended C2 at status 500 with a JSON body: with an \<^verbatim>\<open>error\<close> handler, the handler
  gets the parsed object and the callback returns; without one, nothing happens and the
  callback returns.
\<close>

theorem failure_dispatch_to_error_handler_witness:
  \<open>call_response example_builtins quiet
          \<lparr> registrar = 0,
            callbacks = \<lparr> own = [''error'' \<mapsto> UserFn 1], proto = ObjectPrototype \<rparr> \<rparr>
          (Data JNull) (Some 500) (Str ''{"outcome":"success","payload":"done"}'')
     = ([Invoke (UserFn 1)
          [Data (JObj [(''outcome'', JStr ''success''), (''payload'', JStr ''done'')])]], Inr ())
   \<and> call_response example_builtins quiet
          \<lparr> registrar = 0, callbacks = \<lparr> own = Map.empty, proto = ObjectPrototype \<rparr> \<rparr>
          (Data JNull) (Some 500) (Str ''{"outcome":"success","payload":"done"}'')
     = ([], Inr ())\<close>
proof -
  have failed: \<open>to_boolean example_builtins (Data JNull)
       \<or> (typeof (Str ''{"outcome":"success","payload":"done"}'') \<noteq> ''object''
           \<and> JSON_parse_value example_builtins (Str ''{"outcome":"success","payload":"done"}'')
               = Inl [])
       \<or> (Some 500 = Some (500::int) \<and> (500::int) \<noteq> 200)
       \<or> (Some (500::int) = Some 200
           \<and> hasOwnProperty_outcome (snd (parse_body example_builtins (Data JNull)
                 (Str ''{"outcome":"success","payload":"done"}''))) = Inr False)\<close>
    by simp
  have with_handler:
    "own (callbacks \<lparr> registrar = 0,
            callbacks = \<lparr> own = [''error'' \<mapsto> UserFn 1], proto = ObjectPrototype \<rparr> \<rparr>)
       ''hasOwnProperty'' = None"
    by simp
  have without_handler:
    "own (callbacks \<lparr> registrar = 0,
            callbacks = \<lparr> own = Map.empty, proto = ObjectPrototype \<rparr> \<rparr>)
       ''hasOwnProperty'' = None"
    by simp
  from failure_dispatch_to_error_handler [OF with_handler failed, of quiet]
  have called: \<open>call_response example_builtins quiet
          \<lparr> registrar = 0,
            callbacks = \<lparr> own = [''error'' \<mapsto> UserFn 1], proto = ObjectPrototype \<rparr> \<rparr>
          (Data JNull) (Some 500) (Str ''{"outcome":"success","payload":"done"}'')
     = ([Invoke (UserFn 1)
          [Data (JObj [(''outcome'', JStr ''success''), (''payload'', JStr ''done'')])]], Inr ())\<close>
    by (simp add: example_builtins_def example_parse_def invoke_def quiet_def)
  from failure_dispatch_to_error_handler [OF without_handler failed, of quiet]
  have dropped: \<open>call_response example_builtins quiet
          \<lparr> registrar = 0, callbacks = \<lparr> own = Map.empty, proto = ObjectPrototype \<rparr> \<rparr>
          (Data JNull) (Some 500) (Str ''{"outcome":"success","payload":"done"}'')
     = ([], Inr ())\<close>
    by simp
  from called dropped show ?thesis by simp
qed

subsection \<open>C3: inbound frames\<close>

text \<open>
  C3: an inbound frame is parsed and its \<^verbatim>\<open>event\<close> and \<^verbatim>\<open>payload\<close> extracted; when the
  event string begins with \<^verbatim>\<open>phx_\<close> the frame is swallowed and \<^verbatim>\<open>onMessage\<close> is not
  invoked; otherwise \<^verbatim>\<open>onMessage\<close> is invoked with exactly \<^verbatim>\<open>payload.body\<close>. Stated for the
  frames of the protocol: the data parses to an object whose \<^verbatim>\<open>event\<close> is a string and,
  for a forwarded frame, whose \<^verbatim>\<open>payload\<close> has properties to read (\<open>b\<close> is what reading
  \<^verbatim>\<open>body\<close> gives, undefined when absent); \<^verbatim>\<open>onMessage\<close> is a function, the default one
  included.
\<close>

theorem ws_onmessage_filters_phx_frames:
  assumes parsed: "JSON_parse_value B data = Inr (JObj kvs)"
    and event: "map_of kvs ''event'' = Some (JStr ev)"
    and callee: "onMessage sub = Fun f"
  shows "(prefix ''phx_'' ev \<longrightarrow> ws_onmessage B H sub data = ([], Inr ()))
       \<and> (\<not> prefix ''phx_'' ev \<longrightarrow> map_of kvs ''payload'' = Some p \<longrightarrow>
            get_field (Data p) ''body'' = Inr b \<longrightarrow>
            fst (ws_onmessage B H sub data) = [Invoke f [of_opt b]])"
proof (intro conjI impI)
  assume "prefix ''phx_'' ev"
  then show "ws_onmessage B H sub data = ([], Inr ())"
    using parsed event by (simp add: ws_onmessage_def lift_Inr seq_ret) (simp add: ret_def)
next
  assume "\<not> prefix ''phx_'' ev" and "map_of kvs ''payload'' = Some p"
    and "get_field (Data p) ''body'' = Inr b"
  then show "fst (ws_onmessage B H sub data) = [Invoke f [of_opt b]]"
    using parsed event callee
    by (simp add: ws_onmessage_def lift_Inr seq_ret seq_invoke_unit)
qed

text \<open>
  C3 on the two frames the claim names: \<^verbatim>\<open>phx_reply\<close> never reaches \<^verbatim>\<open>onMessage\<close>, and
  \<^verbatim>\<open>alert_fired\<close> reaches it with \<^verbatim>\<open>"x"\<close>.
\<close>

theorem ws_onmessage_filters_phx_frames_witness:
  \<open>ws_onmessage example_builtins quiet example_subscription
      (Str ''{"event":"phx_reply","payload":{"body":"x"}}'') = ([], Inr ())
   \<and> fst (ws_onmessage example_builtins quiet example_subscription
      (Str ''{"event":"alert_fired","payload":{"body":"x"}}'')) = [Invoke (UserFn 1) [Str ''x'']]\<close>
proof -
  have p1: \<open>JSON_parse_value example_builtins (Str ''{"event":"phx_reply","payload":{"body":"x"}}'')
      = Inr (JObj [(''event'', JStr ''phx_reply''), (''payload'', JObj [(''body'', JStr ''x'')])])\<close>
    by (simp add: example_builtins_def example_parse_def)
  have p2: \<open>JSON_parse_value example_builtins
        (Str ''{"event":"alert_fired","payload":{"body":"x"}}'')
      = Inr (JObj [(''event'', JStr ''alert_fired''), (''payload'', JObj [(''body'', JStr ''x'')])])\<close>
    by (simp add: example_builtins_def example_parse_def)
  have cb: "onMessage example_subscription = Fun (UserFn 1)"
    by (simp add: example_subscription_def)
  have e1: "map_of [(''event'', JStr ''phx_reply''), (''payload'', JObj [(''body'', JStr ''x'')])]
              ''event'' = Some (JStr ''phx_reply'')"
    by simp
  have e2: "map_of [(''event'', JStr ''alert_fired''), (''payload'', JObj [(''body'', JStr ''x'')])]
              ''event'' = Some (JStr ''alert_fired'')"
    by simp
  from ws_onmessage_filters_phx_frames [OF p1 e1 cb, of quiet]
  have swallowed: \<open>ws_onmessage example_builtins quiet example_subscription
      (Str ''{"event":"phx_reply","payload":{"body":"x"}}'') = ([], Inr ())\<close>
    by simp
  from ws_onmessage_filters_phx_frames
    [OF p2 e2 cb, of quiet "JObj [(''body'', JStr ''x'')]" "Some (JStr ''x'')"]
  have forwarded: \<open>fst (ws_onmessage example_builtins quiet example_subscription
      (Str ''{"event":"alert_fired","payload":{"body":"x"}}'')) = [Invoke (UserFn 1) [Str ''x'']]\<close>
    by simp
  from swallowed forwarded show ?thesis by simp
qed

subsection \<open>C4: the channel identity\<close>

text \<open>
  C4: the channel identity computed by \<^verbatim>\<open>listen\<close> is pack, a period, event, an underscore,
  project, a colon, key; for weather, alert, p1, k1 it is \<^verbatim>\<open>weather.alert_p1:k1\<close>. It is
  what the subscription of a \<^verbatim>\<open>listen\<close> call holds.
\<close>

theorem user_id_format:
  "user_id \<lparr> project = p, key = k \<rparr> pack event = pack @ ''.'' @ event @ ''_'' @ p @ '':'' @ k
   \<and> user_id \<lparr> project = ''p1'', key = ''k1'' \<rparr> ''weather'' ''alert'' = ''weather.alert_p1:k1''
   \<and> map_sum id channel (snd (listen B \<lparr> project = p, key = k \<rparr> pack event params (CbObject m cl)))
       = Inr (pack @ ''.'' @ event @ ''_'' @ p @ '':'' @ k)"
  by (simp add: user_id_def listen_def)

subsection \<open>C5: registration\<close>

text \<open>
  C5 says: ill-typed arguments make \<^verbatim>\<open>on\<close> throw at once and leave the table unchanged
  (lemma \<open>on_ill_typed\<close>); well-typed arguments store the handler under the name and return
  the same registrar (lemma \<open>on_well_typed\<close>, for every name but one, on a table whose
  prototype was not replaced).

  The name \<^verbatim>\<open>__proto__\<close> with a function is well-typed, and \<^verbatim>\<open>__callbacks['__proto__'] = cb\<close>
  stores nothing: the assignment reaches the inherited setter and makes \<^verbatim>\<open>cb\<close> the prototype
  of the table. The table has no own property of that name, so a response whose outcome is
  \<^verbatim>\<open>__proto__\<close> is dispatched as if nothing had been registered. After it, a well-typed
  \<^verbatim>\<open>on('name', g)\<close> throws a TypeError, \<^verbatim>\<open>name\<close> being a read-only property of the function
  the table now inherits from.
\<close>

theorem on_proto_key_not_stored:
  \<open>(case on (snd (call example_builtins example_client 0 ''pack'' ''block'' Undefined))
            (Str ''__proto__'') (Fun (UserFn 1)) of
        Inl e \<Rightarrow> False
      | Inr (r, st) \<Rightarrow>
          r = 0 \<and> own (callbacks st) ''__proto__'' = None
          \<and> proto (callbacks st) = FunctionObject (UserFn 1)
          \<and> (case on st (Str ''name'') (Fun (UserFn 2)) of
                Inl e \<Rightarrow> e = TypeError
              | Inr x \<Rightarrow> False))
   \<and> call_session example_builtins quiet example_client ''pack'' ''block'' Undefined
        [(Str ''__proto__'', Fun (UserFn 1))]
        (Data JNull) (Some 200) (Str ''{"outcome":"__proto__","payload":"p"}'')
      = call_session example_builtins quiet example_client ''pack'' ''block'' Undefined
        []
        (Data JNull) (Some 200) (Str ''{"outcome":"__proto__","payload":"p"}'')
   \<and> invocations (fst (call_session example_builtins quiet example_client ''pack'' ''block''
        Undefined
        [(Str ''__proto__'', Fun (UserFn 1))]
        (Data JNull) (Some 200) (Str ''{"outcome":"__proto__","payload":"p"}''))) = []\<close>
  by code_simp

subsection \<open>C6: at most one handler per response\<close>

text \<open>
  C6 says: whatever the response and the table, at most one registered handler is invoked,
  never two handlers and never one handler twice. (Lemma \<open>call_session_at_most_one\<close> is
  the claim for every call on which no handler is registered under \<^verbatim>\<open>hasOwnProperty\<close>.)

  With \<^verbatim>\<open>.on('hasOwnProperty', h)\<close>, \<open>h\<close> returning \<^verbatim>\<open>true\<close>, the test
  \<^verbatim>\<open>__callbacks.hasOwnProperty(body.outcome)\<close> is a call of \<open>h\<close>. On the response
  \<^verbatim>\<open>{"outcome":"hasOwnProperty","payload":"p"}\<close> the source calls \<open>h\<close> twice, with the
  outcome name and then with the payload. With a second handler under \<^verbatim>\<open>success\<close> and the
  response \<^verbatim>\<open>{"outcome":"success","payload":"done"}\<close> it calls both handlers.
\<close>

theorem two_invocations_for_one_response:
  \<open>invocations (fst (call_session example_builtins first_says_true example_client
      ''pack'' ''block'' Undefined
      [(Str ''hasOwnProperty'', Fun (UserFn 1))]
      (Data JNull) (Some 200) (Str ''{"outcome":"hasOwnProperty","payload":"p"}'')))
     = [(UserFn 1, [Str ''hasOwnProperty'']), (UserFn 1, [Str ''p''])]
   \<and> invocations (fst (call_session example_builtins first_says_true example_client
      ''pack'' ''block'' Undefined
      [(Str ''hasOwnProperty'', Fun (UserFn 1)), (Str ''success'', Fun (UserFn 2))]
      (Data JNull) (Some 200) (Str ''{"outcome":"success","payload":"done"}'')))
     = [(UserFn 1, [Str ''success'']), (UserFn 2, [Str ''done''])]\<close>
  by code_simp

subsection \<open>C7: the join message\<close>

text \<open>
  C7: in a session whose socket opens (once, before anything else happens on it), exactly
  one message is sent, and it is the JSON text of the frame with topic
  \<^verbatim>\<open>users_socket:\<close> followed by the channel identity, event \<^verbatim>\<open>phx_join\<close>, an empty payload
  and ref \<^verbatim>\<open>"1"\<close>. Message and close events send nothing.
\<close>

theorem join_frame_sent_once_on_open:
  assumes "Open \<notin> set evs"
  shows \<open>sent (fst (session B H sub (Open # evs))) =
            [json_stringify B
               (JObj [(''topic'', JStr (''users_socket:'' @ channel sub)),
                      (''event'', JStr ''phx_join''),
                      (''payload'', JObj []),
                      (''ref'', JStr ''1'')])]
        \<and> sent (fst (session B H sub (Open # evs))) =
            [''{"topic":'' @ quote_json (''users_socket:'' @ channel sub)
               @ '',"event":"phx_join","payload":{},"ref":"1"}'']\<close>
  using sent_session_without_open [OF assms, of B H sub]
  by (simp add: fst_seq ws_onopen_def sent_append join_frame_def quote_json_def quote_char_def)

text \<open>
  C7 on a session that opens, receives a control frame and an application frame, and
  closes.
\<close>

theorem join_frame_sent_once_on_open_witness:
  \<open>sent (fst (session example_builtins quiet example_subscription
      [Open,
       Message (Str ''{"event":"phx_reply","payload":{"body":"x"}}''),
       Message (Str ''{"event":"alert_fired","payload":{"body":"x"}}''),
       Closed Undefined Undefined]))
    = [''{"topic":"users_socket:weather.alert_p1:k1","event":"phx_join","payload":{},"ref":"1"}'']\<close>
proof -
  have quiet_socket: \<open>Open \<notin> set
      [Message (Str ''{"event":"phx_reply","payload":{"body":"x"}}''),
       Message (Str ''{"event":"alert_fired","payload":{"body":"x"}}''),
       Closed Undefined Undefined]\<close>
    by simp
  from join_frame_sent_once_on_open [OF quiet_socket, of example_builtins quiet example_subscription]
  show ?thesis
    by (simp add: example_subscription_def quote_json_def quote_char_def)
qed

subsection \<open>C8: the token-exchange request\<close>




subsection \<open>C9: a failed token exchange\<close>

text \<open>
  C9: when the token exchange ends in a transport error (the transport then passes no body)
  or in a body that does not parse, the callback throws; before that it causes no effect: no
  socket is opened, no handler is called. The transport's error value plays no part.
\<close>

theorem token_exchange_failure_unhandled:
  "token_response B sub error response Undefined = ([], Inl (Throw (ErrorObj ''SyntaxError'')))
   \<and> (JSON_parse_value B body = Inl n \<longrightarrow>
        token_response B sub error response body = ([], Inl (Throw (ErrorObj n))))"
  by (simp add: token_response_def throw_def)

text \<open>
  C9 on a connection that was refused, and on a body that is not JSON with status 502.
\<close>

theorem token_exchange_failure_unhandled_witness:
  "token_response example_builtins example_subscription (ErrorObj ''ECONNREFUSED'') None Undefined
     = ([], Inl (Throw (ErrorObj ''SyntaxError'')))
   \<and> token_response example_builtins example_subscription (Data JNull) (Some 502)
       (Str ''Bad Gateway'')
     = ([], Inl (Throw (ErrorObj ''SyntaxError'')))"
proof -
  have unparsed: "JSON_parse_value example_builtins (Str ''Bad Gateway'') = Inl ''SyntaxError''"
    by (simp add: example_builtins_def example_parse_def)
  from token_exchange_failure_unhandled
    [of example_builtins example_subscription "ErrorObj ''ECONNREFUSED''" None]
  have refused:
    "token_response example_builtins example_subscription (ErrorObj ''ECONNREFUSED'') None Undefined
       = ([], Inl (Throw (ErrorObj ''SyntaxError'')))"
    by simp
  from token_exchange_failure_unhandled
    [of example_builtins example_subscription "Data JNull" "Some 502" "Str ''Bad Gateway''"
        "''SyntaxError''"]
    unparsed
  have gateway:
    "token_response example_builtins example_subscription (Data JNull) (Some 502)
       (Str ''Bad Gateway'')
       = ([], Inl (Throw (ErrorObj ''SyntaxError'')))"
    by simp
  from refused gateway show ?thesis by simp
qed

subsection \<open>C10: the callbacks argument is required\<close>

text \<open>
  C10: \<^verbatim>\<open>listen\<close> with \<^verbatim>\<open>callbacks\<close> omitted, \<^verbatim>\<open>undefined\<close> or \<^verbatim>\<open>null\<close> throws at once,
  before any request is issued; with an object that has neither handler, both default to
  the no-op and the request is issued.
\<close>

theorem listen_requires_callbacks:
  "listen B c pack event params CbUndefined = ([], Inl (Throw TypeError))
   \<and> listen B c pack event params CbNull = ([], Inl (Throw TypeError))
   \<and> snd (listen B c pack event params (CbObject Undefined Undefined)) =
       Inr \<lparr> channel = user_id c pack event,
             onMessage = Fun NoopOnMessage, onClose = Fun NoopOnClose \<rparr>
   \<and> length (fst (listen B c pack event params (CbObject Undefined Undefined))) = 1"
  by (simp add: listen_def throw_def)

end
